theory Spec2Isabelle
  imports Main
begin

section \<open>The UE simulator operator (src/charm.py)\<close>

text \<open>
  The charm reacts to one event at a time. Each handler reads the Juju configuration,
  the stored flag \<open>ue_running\<close> and the workload container, and acts on the container
  through the Pebble client. The model threads one record through every handler: it
  holds what the charm owns (configuration, stored flag, unit status), what the workload
  container holds (file system, Pebble plan), and the list of the commands the charm has
  sent so far. A Python exception is the left summand of the result; the state that the
  handler had reached when it was raised is returned next to it.
\<close>

subsection \<open>Module constants\<close>

definition BASE_CONFIG_PATH :: string where
  "BASE_CONFIG_PATH = ''/etc''"

definition UE_CONFIG_FILE_NAME :: string where
  "UE_CONFIG_FILE_NAME = ''ue.yaml''"

definition DEFAULT_FIELD_MANAGER :: string where
  "DEFAULT_FIELD_MANAGER = ''controller''"

definition GTP_PORT :: int where
  "GTP_PORT = 4997"

text \<open>The f-string \<open>f"{BASE_CONFIG_PATH}/{UE_CONFIG_FILE_NAME}"\<close>, used at every file access.\<close>

definition ue_config_file_path :: string where
  "ue_config_file_path = BASE_CONFIG_PATH @ ''/'' @ UE_CONFIG_FILE_NAME"

subsection \<open>Data\<close>

text \<open>A Juju configuration value: the options of this charm are strings, and \<open>sst\<close> an integer.\<close>

datatype cfg_value = StrVal string | IntVal int

text \<open>Python truthiness of \<open>config.get(key)\<close>: \<open>None\<close>, the empty string and \<open>0\<close> are falsy.\<close>

fun truthy :: "cfg_value option \<Rightarrow> bool" where
  "truthy None = False"
| "truthy (Some (StrVal v)) = (v \<noteq> [])"
| "truthy (Some (IntVal n)) = (n \<noteq> 0)"

datatype unit_status =
    UnknownStatus
  | MaintenanceStatus string
  | BlockedStatus string
  | WaitingStatus string
  | ActiveStatus

datatype error = TemplateError | PathError | APIError | ConnectionError

record service =
  override :: string
  startup :: string
  command :: string

record layer =
  summary :: string
  description :: string
  services :: "string \<rightharpoonup> service"

datatype node = Dir | File string

text \<open>The Kubernetes service object that the install handler applies.\<close>

record k8s_service =
  namespace :: string
  name :: string
  labels :: "(string \<times> string) list"
  selector :: "(string \<times> string) list"
  ports :: "(string \<times> int \<times> string) list"

text \<open>The commands a handler sends to its collaborators, in the order they are sent.\<close>

datatype call =
    Push string string
  | AddLayer string layer bool
  | Restart string
  | Start string
  | Stop string
  | ClientApply k8s_service string
  | ClientDelete string string

record charm =
  config :: "string \<rightharpoonup> cfg_value"
  ue_running :: bool
  status :: unit_status
  model_name :: string
  app_name :: string
  reachable :: bool
  fs :: "string \<rightharpoonup> node"
  plan :: "string \<rightharpoonup> service"
  push_fault :: "error option"
  add_layer_fault :: "error option"
  client_fault :: "error option"
  calls :: "call list"

text \<open>
  The template \<open>src/templates/ue-config.yaml.j2\<close> and the engine that evaluates it are
  a parameter: a function of the keyword arguments that returns the text or raises.
\<close>

type_synonym template = "(string \<times> cfg_value option) list \<Rightarrow> error + string"

subsection \<open>The workload container and the Pebble client\<close>

text \<open>
  The collaborators of the charm, with the interface that section 6 of the
  specification gives them: reachability and existence are plain observations, reading
  a path that holds no file fails, writing a file and applying a layer may fail.
  The start and stop commands raise when the container cannot be reached
  (\<open>ConnectionError\<close>) and when no layer of the plan defines the service
  (\<open>APIError\<close>); the command is recorded as sent in both cases. The restart
  command is sent by \<open>configure_uesim_workload\<close> alone, right after the layer that
  defines the service has been applied.
\<close>

definition can_connect :: "charm \<Rightarrow> bool" where
  "can_connect s = reachable s"

definition exists_path :: "charm \<Rightarrow> string \<Rightarrow> bool" where
  "exists_path s path = (fs s path \<noteq> None)"

definition pull :: "charm \<Rightarrow> string \<Rightarrow> error + string" where
  "pull s path = (case fs s path of Some (File text) \<Rightarrow> Inr text | _ \<Rightarrow> Inl PathError)"

definition push :: "string \<Rightarrow> string \<Rightarrow> charm \<Rightarrow> (error + unit) \<times> charm" where
  "push source path s =
     (let s1 = s\<lparr>calls := calls s @ [Push path source]\<rparr> in
      case push_fault s of
        Some e \<Rightarrow> (Inl e, s1)
      | None \<Rightarrow> (Inr (), s1\<lparr>fs := (fs s)(path \<mapsto> File source)\<rparr>))"

definition get_plan :: "charm \<Rightarrow> string \<rightharpoonup> service" where
  "get_plan s = plan s"

text \<open>\<open>add_layer(label, layer, combine=True)\<close>: the services that the layer names replace
  those of the plan, every other service of the plan stays.\<close>

definition add_layer_combine :: "string \<Rightarrow> layer \<Rightarrow> charm \<Rightarrow> (error + unit) \<times> charm" where
  "add_layer_combine label l s =
     (let s1 = s\<lparr>calls := calls s @ [AddLayer label l True]\<rparr> in
      case add_layer_fault s of
        Some e \<Rightarrow> (Inl e, s1)
      | None \<Rightarrow> (Inr (), s1\<lparr>plan := plan s ++ services l\<rparr>))"

definition restart :: "string \<Rightarrow> charm \<Rightarrow> charm" where
  "restart svc s = s\<lparr>calls := calls s @ [Restart svc]\<rparr>"

definition start :: "string \<Rightarrow> charm \<Rightarrow> (error + unit) \<times> charm" where
  "start svc s =
     (let s1 = s\<lparr>calls := calls s @ [Start svc]\<rparr> in
      if \<not> reachable s then (Inl ConnectionError, s1)
      else if plan s svc = None then (Inl APIError, s1)
      else (Inr (), s1))"

definition stop :: "string \<Rightarrow> charm \<Rightarrow> (error + unit) \<times> charm" where
  "stop svc s =
     (let s1 = s\<lparr>calls := calls s @ [Stop svc]\<rparr> in
      if \<not> reachable s then (Inl ConnectionError, s1)
      else if plan s svc = None then (Inl APIError, s1)
      else (Inr (), s1))"

subsection \<open>Configuration accessors and validation\<close>

definition uesim_service_name :: string where
  "uesim_service_name = ''uesim''"

definition get_gnb_address_from_config :: "charm \<Rightarrow> cfg_value option" where
  "get_gnb_address_from_config s = config s ''gnb-address''"

definition get_usim_opc_from_config :: "charm \<Rightarrow> cfg_value option" where
  "get_usim_opc_from_config s = config s ''usim-opc''"

definition get_mcc_from_config :: "charm \<Rightarrow> cfg_value option" where
  "get_mcc_from_config s = config s ''mcc''"

definition get_imei_from_config :: "charm \<Rightarrow> cfg_value option" where
  "get_imei_from_config s = config s ''imei''"

definition get_mnc_from_config :: "charm \<Rightarrow> cfg_value option" where
  "get_mnc_from_config s = config s ''mnc''"

definition get_usim_key_from_config :: "charm \<Rightarrow> cfg_value option" where
  "get_usim_key_from_config s = config s ''usim-key''"

definition get_sd_from_config :: "charm \<Rightarrow> cfg_value option" where
  "get_sd_from_config s = config s ''sd''"

definition get_sst_from_config :: "charm \<Rightarrow> cfg_value option" where
  "get_sst_from_config s = config s ''sst''"

definition get_supi_from_config :: "charm \<Rightarrow> cfg_value option" where
  "get_supi_from_config s = config s ''supi''"

text \<open>Nine tests in the order of the source, each appending its name to the list.\<close>

definition get_invalid_configs :: "charm \<Rightarrow> string list" where
  "get_invalid_configs s =
     (let invalid_configs = [];
          invalid_configs = (if \<not> truthy (get_gnb_address_from_config s)
                             then invalid_configs @ [''gnb-address''] else invalid_configs);
          invalid_configs = (if \<not> truthy (get_supi_from_config s)
                             then invalid_configs @ [''supi''] else invalid_configs);
          invalid_configs = (if \<not> truthy (get_mcc_from_config s)
                             then invalid_configs @ [''mcc''] else invalid_configs);
          invalid_configs = (if \<not> truthy (get_mnc_from_config s)
                             then invalid_configs @ [''mnc''] else invalid_configs);
          invalid_configs = (if \<not> truthy (get_usim_key_from_config s)
                             then invalid_configs @ [''usim-key''] else invalid_configs);
          invalid_configs = (if \<not> truthy (get_sd_from_config s)
                             then invalid_configs @ [''sd''] else invalid_configs);
          invalid_configs = (if \<not> truthy (get_sst_from_config s)
                             then invalid_configs @ [''sst''] else invalid_configs);
          invalid_configs = (if \<not> truthy (get_usim_opc_from_config s)
                             then invalid_configs @ [''usim-opc''] else invalid_configs);
          invalid_configs = (if \<not> truthy (get_imei_from_config s)
                             then invalid_configs @ [''imei''] else invalid_configs)
      in invalid_configs)"

text \<open>
  \<open>str\<close> of a Python list of strings, as the f-string of the Blocked message formats
  it: the \<open>repr\<close> of each element, separated by a comma and a space, in brackets. The
  \<open>repr\<close> is the one of a string without quotes, backslashes or control characters,
  which is what the nine option names are.
\<close>

definition py_repr :: "string \<Rightarrow> string" where
  "py_repr v = [CHR 0x27] @ v @ [CHR 0x27]"

fun join :: "string \<Rightarrow> string list \<Rightarrow> string" where
  "join sep [] = []"
| "join sep [x] = x"
| "join sep (x # y # ys) = x @ sep @ join sep (y # ys)"

definition py_str_list :: "string list \<Rightarrow> string" where
  "py_str_list xs = ''['' @ join '', '' (map py_repr xs) @ '']''"

subsection \<open>Rendering, the managed file and the Pebble layer\<close>

definition render_ue_config_file ::
  "template \<Rightarrow> cfg_value option \<Rightarrow> cfg_value option \<Rightarrow> cfg_value option \<Rightarrow> cfg_value option \<Rightarrow>
   cfg_value option \<Rightarrow> cfg_value option \<Rightarrow> cfg_value option \<Rightarrow> cfg_value option \<Rightarrow>
   cfg_value option \<Rightarrow> error + string" where
  "render_ue_config_file tmpl mcc mnc sd sst supi usim_key usim_opc imei gnb_address =
     tmpl [(''mcc'', mcc), (''mnc'', mnc), (''sd'', sd), (''sst'', sst), (''supi'', supi),
           (''usim_key'', usim_key), (''usim_opc'', usim_opc), (''imei'', imei),
           (''gnb_address'', gnb_address)]"

definition write_config_file :: "string \<Rightarrow> charm \<Rightarrow> (error + unit) \<times> charm" where
  "write_config_file content s = push content ue_config_file_path s"

definition ue_config_file_is_written :: "charm \<Rightarrow> bool" where
  "ue_config_file_is_written s =
     (if \<not> exists_path s ue_config_file_path then False else True)"

definition config_file_content_matches :: "charm \<Rightarrow> string \<Rightarrow> error + bool" where
  "config_file_content_matches s content =
     (if \<not> exists_path s ue_config_file_path then Inr False
      else case pull s ue_config_file_path of
             Inl e \<Rightarrow> Inl e
           | Inr existing_content \<Rightarrow>
               (if existing_content \<noteq> content then Inr False else Inr True))"

definition uesim_pebble_layer :: layer where
  "uesim_pebble_layer =
     \<lparr>summary = ''uesim simulator layer'',
      description = ''pebble config layer for gnb simulator'',
      services = [uesim_service_name \<mapsto>
        \<lparr>override = ''replace'',
         startup = ''enabled'',
         command = ''nr-ue -c '' @ ue_config_file_path\<rparr>]\<rparr>"

definition configure_uesim_workload :: "bool \<Rightarrow> charm \<Rightarrow> (error + unit) \<times> charm" where
  "configure_uesim_workload restart_flag s =
     (let plan_now = get_plan s;
          l = uesim_pebble_layer in
      if plan_now \<noteq> services l \<or> restart_flag then
        (case add_layer_combine ''uesim'' l s of
           (Inl e, s1) \<Rightarrow> (Inl e, s1)
         | (Inr u, s1) \<Rightarrow>
             (if ue_running s1 then (Inr (), restart uesim_service_name s1)
              else (Inr (), s1)))
      else (Inr (), s))"

subsection \<open>The handlers\<close>

definition configure :: "template \<Rightarrow> charm \<Rightarrow> (error + unit) \<times> charm" where
  "configure tmpl s =
     (let invalid_configs = get_invalid_configs s in
      if invalid_configs \<noteq> [] then
        (Inr (), s\<lparr>status := BlockedStatus
                     (''Configurations are invalid: '' @ py_str_list invalid_configs)\<rparr>)
      else if \<not> can_connect s then
        (Inr (), s\<lparr>status := WaitingStatus ''Waiting for container to be ready''\<rparr>)
      else if \<not> exists_path s BASE_CONFIG_PATH then
        (Inr (), s\<lparr>status := WaitingStatus ''Waiting for storage to be attached''\<rparr>)
      else
        (case render_ue_config_file tmpl
                (get_mcc_from_config s) (get_mnc_from_config s) (get_sd_from_config s)
                (get_sst_from_config s) (get_supi_from_config s)
                (get_usim_key_from_config s) (get_usim_opc_from_config s)
                (get_imei_from_config s) (get_gnb_address_from_config s) of
           Inl e \<Rightarrow> (Inl e, s)
         | Inr content \<Rightarrow>
             (case config_file_content_matches s content of
                Inl e \<Rightarrow> (Inl e, s)
              | Inr True \<Rightarrow> (Inr (), s\<lparr>status := ActiveStatus\<rparr>)
              | Inr False \<Rightarrow>
                  (case write_config_file content s of
                     (Inl e, s1) \<Rightarrow> (Inl e, s1)
                   | (Inr u, s1) \<Rightarrow>
                       (case configure_uesim_workload True s1 of
                          (Inl e, s2) \<Rightarrow> (Inl e, s2)
                        | (Inr v, s2) \<Rightarrow> (Inr (), s2\<lparr>status := ActiveStatus\<rparr>))))))"

definition on_install :: "charm \<Rightarrow> (error + unit) \<times> charm" where
  "on_install s =
     (let obj = \<lparr>namespace = model_name s,
                 name = app_name s,
                 labels = [(''app.kubernetes.io/name'', app_name s)],
                 selector = [(''app.kubernetes.io/name'', app_name s)],
                 ports = [(''ue-gtp'', GTP_PORT, ''UDP'')]\<rparr>;
          s1 = s\<lparr>calls := calls s @ [ClientApply obj DEFAULT_FIELD_MANAGER]\<rparr> in
      case client_fault s of Some e \<Rightarrow> (Inl e, s1) | None \<Rightarrow> (Inr (), s1))"

definition on_remove :: "charm \<Rightarrow> (error + unit) \<times> charm" where
  "on_remove s =
     (let s1 = s\<lparr>calls := calls s @ [ClientDelete (model_name s) (app_name s)]\<rparr> in
      case client_fault s of Some e \<Rightarrow> (Inl e, s1) | None \<Rightarrow> (Inr (), s1))"

definition on_start_ue_action :: "template \<Rightarrow> charm \<Rightarrow> (error + unit) \<times> charm" where
  "on_start_ue_action tmpl s =
     (case configure tmpl s of
        (Inl e, s1) \<Rightarrow> (Inl e, s1)
      | (Inr u, s1) \<Rightarrow>
          (if \<not> ue_running s1 then
             (case start uesim_service_name s1 of
                (Inl e, s2) \<Rightarrow> (Inl e, s2)
              | (Inr v, s2) \<Rightarrow> (Inr (), s2\<lparr>ue_running := True\<rparr>))
           else (Inr (), s1)))"

definition on_stop_ue_action :: "template \<Rightarrow> charm \<Rightarrow> (error + unit) \<times> charm" where
  "on_stop_ue_action tmpl s =
     (case configure tmpl s of
        (Inl e, s1) \<Rightarrow> (Inl e, s1)
      | (Inr u, s1) \<Rightarrow>
          (if ue_running s1 then
             (case stop uesim_service_name s1 of
                (Inl e, s2) \<Rightarrow> (Inl e, s2)
              | (Inr v, s2) \<Rightarrow> (Inr (), s2\<lparr>ue_running := False\<rparr>))
           else (Inr (), s1)))"

text \<open>The six \<open>framework.observe\<close> registrations of \<open>__init__\<close>.\<close>

datatype event =
    Install
  | Remove
  | Config_changed
  | Uesim_pebble_ready
  | Start_ue_action
  | Stop_ue_action

fun dispatch :: "template \<Rightarrow> event \<Rightarrow> charm \<Rightarrow> (error + unit) \<times> charm" where
  "dispatch tmpl Install s = on_install s"
| "dispatch tmpl Remove s = on_remove s"
| "dispatch tmpl Config_changed s = configure tmpl s"
| "dispatch tmpl Uesim_pebble_ready s = configure tmpl s"
| "dispatch tmpl Start_ue_action s = on_start_ue_action tmpl s"
| "dispatch tmpl Stop_ue_action s = on_stop_ue_action tmpl s"

subsection \<open>Vocabulary of the specification\<close>

text \<open>
  The nine required fields in the order the specification names them, and what it calls
  a missing field: absent, the empty string, or zero. These two definitions follow the
  words of the specification; \<open>get_invalid_configs\<close> above follows the source.
\<close>

definition spec_required_fields :: "string list" where
  "spec_required_fields =
     [''gnb-address'', ''supi'', ''mcc'', ''mnc'', ''usim-key'', ''sd'', ''sst'',
      ''usim-opc'', ''imei'']"

definition spec_missing :: "cfg_value option \<Rightarrow> bool" where
  "spec_missing v = (v = None \<or> v = Some (StrVal []) \<or> v = Some (IntVal 0))"

definition fully_populated :: "charm \<Rightarrow> bool" where
  "fully_populated s = (\<forall>k \<in> set spec_required_fields. \<not> spec_missing (config s k))"

text \<open>The rendered configuration of a state: the call of the renderer that \<open>configure\<close> makes.\<close>

definition rendered_config :: "template \<Rightarrow> charm \<Rightarrow> error + string" where
  "rendered_config tmpl s =
     render_ue_config_file tmpl
       (get_mcc_from_config s) (get_mnc_from_config s) (get_sd_from_config s)
       (get_sst_from_config s) (get_supi_from_config s)
       (get_usim_key_from_config s) (get_usim_opc_from_config s)
       (get_imei_from_config s) (get_gnb_address_from_config s)"

fun is_push :: "call \<Rightarrow> bool" where
  "is_push (Push path source) = True"
| "is_push c = False"

fun is_add_layer :: "call \<Rightarrow> bool" where
  "is_add_layer (AddLayer label l combine) = True"
| "is_add_layer c = False"

fun is_restart :: "call \<Rightarrow> bool" where
  "is_restart (Restart svc) = True"
| "is_restart c = False"

fun is_start :: "call \<Rightarrow> bool" where
  "is_start (Start svc) = True"
| "is_start c = False"

fun is_stop :: "call \<Rightarrow> bool" where
  "is_stop (Stop svc) = True"
| "is_stop c = False"

definition count_calls :: "(call \<Rightarrow> bool) \<Rightarrow> charm \<Rightarrow> nat" where
  "count_calls p s = length (filter p (calls s))"

subsection \<open>Concrete configurations and states\<close>

text \<open>The scenario of the specification: every field set, the container reachable, the
  storage attached, no configuration file yet, the service never started.\<close>

definition example_config :: "string \<rightharpoonup> cfg_value" where
  "example_config =
     [''mcc'' \<mapsto> StrVal ''001'', ''mnc'' \<mapsto> StrVal ''01'', ''sd'' \<mapsto> StrVal ''102030'',
      ''sst'' \<mapsto> IntVal 1, ''supi'' \<mapsto> StrVal ''imsi-001010000000001'',
      ''usim-key'' \<mapsto> StrVal ''5122250214c33e723a5dd523fc145fc0'',
      ''usim-opc'' \<mapsto> StrVal ''981d464c7c52eb6e5036234984ad0bcf'',
      ''imei'' \<mapsto> StrVal ''356938035643803'', ''gnb-address'' \<mapsto> StrVal ''10.0.0.1'']"

text \<open>A small renderer, and one whose template is missing.\<close>

definition example_template :: template where
  "example_template args =
     (case map_of args ''supi'' of
        Some (Some (StrVal v)) \<Rightarrow> Inr (''supi: '' @ v)
      | _ \<Rightarrow> Inl TemplateError)"

definition broken_template :: template where
  "broken_template args = Inl TemplateError"

definition example_content :: string where
  "example_content = ''supi: imsi-001010000000001''"

definition example_state :: charm where
  "example_state =
     \<lparr>config = example_config, ue_running = False, status = UnknownStatus,
      model_name = ''ran'', app_name = ''ueransim-ue'', reachable = True,
      fs = [''/etc'' \<mapsto> Dir], plan = Map.empty,
      push_fault = None, add_layer_fault = None, client_fault = None, calls = []\<rparr>"

text \<open>The same state once the file holds the rendered text, with an empty Pebble plan
  (as after the workload container was replaced while its storage was kept).\<close>

definition example_state_written :: charm where
  "example_state_written =
     example_state\<lparr>fs := [''/etc'' \<mapsto> Dir, ''/etc/ue.yaml'' \<mapsto> File example_content],
                   status := ActiveStatus\<rparr>"

text \<open>The state with the file written, the layer applied and the service started.\<close>

definition example_state_started :: charm where
  "example_state_started =
     example_state_written\<lparr>plan := services uesim_pebble_layer, ue_running := True\<rparr>"

section \<open>Properties\<close>

subsection \<open>Validation computes the missing fields\<close>

lemma truthy_iff_not_missing: "(\<not> truthy v) = spec_missing v"
  by (cases v rule: truthy.cases) (auto simp: spec_missing_def)

lemmas getters =
  get_gnb_address_from_config_def get_usim_opc_from_config_def get_mcc_from_config_def
  get_imei_from_config_def get_mnc_from_config_def get_usim_key_from_config_def
  get_sd_from_config_def get_sst_from_config_def get_supi_from_config_def

lemma append_if_step: "(if c then xs @ [a] else xs) = xs @ (if c then [a] else [])"
  by simp

lemma filter_cons_if: "filter P (a # xs) = (if P a then [a] else []) @ filter P xs"
  by simp

lemma get_invalid_configs_filter:
  "get_invalid_configs s = filter (\<lambda>k. spec_missing (config s k)) spec_required_fields"
  unfolding get_invalid_configs_def Let_def getters spec_required_fields_def
    truthy_iff_not_missing append_if_step filter_cons_if
  by (simp only: append_Nil append_Nil2 append_assoc filter.simps(1))

lemma fully_populated_iff: "fully_populated s = (get_invalid_configs s = [])"
  by (simp add: fully_populated_def get_invalid_configs_filter filter_empty_conv)

subsection \<open>The branches of the reconciliation\<close>

lemma configure_invalid:
  "get_invalid_configs s \<noteq> [] \<Longrightarrow>
   configure tmpl s =
     (Inr (), s\<lparr>status := BlockedStatus
        (''Configurations are invalid: '' @ py_str_list (get_invalid_configs s))\<rparr>)"
  by (simp add: configure_def Let_def)

lemma configure_unreachable:
  "get_invalid_configs s = [] \<Longrightarrow> \<not> can_connect s \<Longrightarrow>
   configure tmpl s =
     (Inr (), s\<lparr>status := WaitingStatus ''Waiting for container to be ready''\<rparr>)"
  by (simp add: configure_def Let_def)

lemma configure_no_storage:
  "get_invalid_configs s = [] \<Longrightarrow> can_connect s \<Longrightarrow>
   \<not> exists_path s BASE_CONFIG_PATH \<Longrightarrow>
   configure tmpl s =
     (Inr (), s\<lparr>status := WaitingStatus ''Waiting for storage to be attached''\<rparr>)"
  by (simp add: configure_def Let_def)

lemma configure_ready:
  "get_invalid_configs s = [] \<Longrightarrow> can_connect s \<Longrightarrow> exists_path s BASE_CONFIG_PATH \<Longrightarrow>
   configure tmpl s =
     (case rendered_config tmpl s of
        Inl e \<Rightarrow> (Inl e, s)
      | Inr content \<Rightarrow>
          (case config_file_content_matches s content of
             Inl e \<Rightarrow> (Inl e, s)
           | Inr True \<Rightarrow> (Inr (), s\<lparr>status := ActiveStatus\<rparr>)
           | Inr False \<Rightarrow>
               (case write_config_file content s of
                  (Inl e, s1) \<Rightarrow> (Inl e, s1)
                | (Inr u, s1) \<Rightarrow>
                    (case configure_uesim_workload True s1 of
                       (Inl e, s2) \<Rightarrow> (Inl e, s2)
                     | (Inr v, s2) \<Rightarrow> (Inr (), s2\<lparr>status := ActiveStatus\<rparr>)))))"
  by (simp add: configure_def Let_def rendered_config_def)

lemma matches_file:
  "fs s ue_config_file_path = Some (File old) \<Longrightarrow>
   config_file_content_matches s content = Inr (old = content)"
  by (simp add: config_file_content_matches_def exists_path_def pull_def)

lemma matches_absent:
  "fs s ue_config_file_path = None \<Longrightarrow> config_file_content_matches s content = Inr False"
  by (simp add: config_file_content_matches_def exists_path_def)

lemma workload_forced:
  "configure_uesim_workload True s =
     (case add_layer_fault s of
        Some e \<Rightarrow> (Inl e, s\<lparr>calls := calls s @ [AddLayer ''uesim'' uesim_pebble_layer True]\<rparr>)
      | None \<Rightarrow>
          (Inr (), s\<lparr>calls := calls s @ [AddLayer ''uesim'' uesim_pebble_layer True]
                              @ (if ue_running s then [Restart uesim_service_name] else []),
                    plan := plan s ++ services uesim_pebble_layer\<rparr>))"
  by (simp add: configure_uesim_workload_def add_layer_combine_def restart_def Let_def
      split: option.splits)

lemma write_config_file_eq:
  "write_config_file content s =
     (case push_fault s of
        Some e \<Rightarrow> (Inl e, s\<lparr>calls := calls s @ [Push ue_config_file_path content]\<rparr>)
      | None \<Rightarrow> (Inr (), s\<lparr>calls := calls s @ [Push ue_config_file_path content],
                            fs := (fs s)(ue_config_file_path \<mapsto> File content)\<rparr>))"
  by (simp add: write_config_file_def push_def Let_def split: option.splits)

subsection \<open>The example states\<close>

lemma example_populated: "get_invalid_configs example_state = []"
  by (simp add: get_invalid_configs_def getters example_state_def example_config_def)

lemma example_rendered: "rendered_config example_template example_state = Inr example_content"
  by (simp add: rendered_config_def render_ue_config_file_def getters example_state_def
      example_config_def example_template_def example_content_def)

lemma example_storage: "exists_path example_state BASE_CONFIG_PATH"
  by (simp add: exists_path_def example_state_def BASE_CONFIG_PATH_def)

lemma example_no_file: "fs example_state ue_config_file_path = None"
  by (simp add: example_state_def ue_config_file_path_def BASE_CONFIG_PATH_def
      UE_CONFIG_FILE_NAME_def)

subsection \<open>What the reconciliation leaves alone\<close>

lemma configure_ue_running: "ue_running (snd (configure tmpl s)) = ue_running s"
  by (simp add: configure_def Let_def write_config_file_eq workload_forced
      split: sum.splits option.splits bool.splits)

lemma configure_starts: "filter is_start (calls (snd (configure tmpl s))) = filter is_start (calls s)"
  by (simp add: configure_def Let_def write_config_file_eq workload_forced
      split: sum.splits option.splits bool.splits)

lemma configure_stops: "filter is_stop (calls (snd (configure tmpl s))) = filter is_stop (calls s)"
  by (simp add: configure_def Let_def write_config_file_eq workload_forced
      split: sum.splits option.splits bool.splits)

lemma configure_restarts:
  "\<not> ue_running s \<Longrightarrow>
   filter is_restart (calls (snd (configure tmpl s))) = filter is_restart (calls s)"
  by (simp add: configure_def Let_def write_config_file_eq workload_forced
      split: sum.splits option.splits bool.splits)

lemma configure_failure_status:
  assumes "fst (configure tmpl s) = Inl e"
  shows "status (snd (configure tmpl s)) = status s"
proof (cases "get_invalid_configs s = []")
  case False
  with assms show ?thesis by (simp add: configure_invalid)
next
  case valid: True
  show ?thesis
  proof (cases "can_connect s")
    case False
    with valid assms show ?thesis by (simp add: configure_unreachable)
  next
    case conn: True
    show ?thesis
    proof (cases "exists_path s BASE_CONFIG_PATH")
      case False
      with valid conn assms show ?thesis by (simp add: configure_no_storage)
    next
      case True
      note r = configure_ready [OF valid conn True, of tmpl]
      from assms show ?thesis
        unfolding r
        by (auto simp: write_config_file_eq workload_forced
            split: sum.splits option.splits bool.splits)
    qed
  qed
qed

lemma status_update_observations [simp]:
  "get_invalid_configs (s\<lparr>status := x\<rparr>) = get_invalid_configs s"
  "can_connect (s\<lparr>status := x\<rparr>) = can_connect s"
  "exists_path (s\<lparr>status := x\<rparr>) p = exists_path s p"
  "rendered_config tmpl (s\<lparr>status := x\<rparr>) = rendered_config tmpl s"
  "config_file_content_matches (s\<lparr>status := x\<rparr>) c = config_file_content_matches s c"
  by (simp_all add: get_invalid_configs_def getters can_connect_def exists_path_def
      rendered_config_def config_file_content_matches_def pull_def)

subsection \<open>Missing fields block the unit\<close>

text \<open>
  Claim C2. Whenever at least one of the nine required fields is absent, the empty string
  or zero, the reconciliation returns normally with the status Blocked, whose message is
  \<open>Configurations are invalid:\<close> followed by the Python list of exactly the missing
  field names in the fixed order of \<open>spec_required_fields\<close>. Nothing but the status
  changes: no command is sent (no write, no layer, no restart), and the file system and
  the plan are as before.
\<close>

theorem blocked_lists_missing_fields:
  assumes "\<not> fully_populated s"
  shows "configure tmpl s =
           (Inr (), s\<lparr>status := BlockedStatus
              (''Configurations are invalid: '' @
               py_str_list (filter (\<lambda>k. spec_missing (config s k)) spec_required_fields))\<rparr>)
         \<and> calls (snd (configure tmpl s)) = calls s
         \<and> fs (snd (configure tmpl s)) = fs s
         \<and> plan (snd (configure tmpl s)) = plan s"
proof -
  from assms have "get_invalid_configs s \<noteq> []"
    by (simp add: fully_populated_iff)
  then have "configure tmpl s =
      (Inr (), s\<lparr>status := BlockedStatus
         (''Configurations are invalid: '' @ py_str_list (get_invalid_configs s))\<rparr>)"
    by (rule configure_invalid)
  then show ?thesis
    by (simp add: get_invalid_configs_filter)
qed

theorem blocked_lists_missing_fields_witness:
  "\<not> fully_populated (example_state\<lparr>config := example_config(''supi'' \<mapsto> StrVal [], ''sst'' \<mapsto> IntVal 0)\<rparr>)
   \<and> configure example_template
        (example_state\<lparr>config := example_config(''supi'' \<mapsto> StrVal [], ''sst'' \<mapsto> IntVal 0)\<rparr>)
     = (Inr (), example_state\<lparr>config := example_config(''supi'' \<mapsto> StrVal [], ''sst'' \<mapsto> IntVal 0),
                  status := BlockedStatus ''Configurations are invalid: ['supi', 'sst']''\<rparr>)"
proof -
  let ?s = "example_state\<lparr>config := example_config(''supi'' \<mapsto> StrVal [], ''sst'' \<mapsto> IntVal 0)\<rparr>"
  have h: "\<not> fully_populated ?s"
    by (simp add: fully_populated_def spec_required_fields_def spec_missing_def)
  have f: "filter (\<lambda>k. spec_missing (config ?s k)) spec_required_fields = [''supi'', ''sst'']"
    by (simp add: spec_required_fields_def spec_missing_def example_config_def)
  note r = blocked_lists_missing_fields [OF h, of example_template, unfolded f]
  show ?thesis
    using h r by (simp add: py_str_list_def py_repr_def)
qed

subsection \<open>A container that is not ready makes the unit wait\<close>

text \<open>
  Claim C5. With every required field present: when the container cannot be reached, the
  reconciliation returns normally (no exception) with the status Waiting and the message
  \<open>Waiting for container to be ready\<close>; when it can be reached and the storage path
  \<open>/etc\<close> does not exist, with the message \<open>Waiting for storage to be attached\<close>.
  In both cases the status is the only field of the state that changes, so no file is
  written and no layer is applied.
\<close>

theorem waiting_when_not_ready:
  assumes "fully_populated s"
  shows "(\<not> can_connect s \<longrightarrow>
            configure tmpl s =
              (Inr (), s\<lparr>status := WaitingStatus ''Waiting for container to be ready''\<rparr>))
       \<and> (can_connect s \<and> \<not> exists_path s BASE_CONFIG_PATH \<longrightarrow>
            configure tmpl s =
              (Inr (), s\<lparr>status := WaitingStatus ''Waiting for storage to be attached''\<rparr>))"
  using assms
  by (simp add: fully_populated_iff configure_unreachable configure_no_storage)

theorem waiting_when_not_ready_witness:
  "fully_populated example_state
   \<and> \<not> can_connect (example_state\<lparr>reachable := False\<rparr>)
   \<and> configure example_template (example_state\<lparr>reachable := False\<rparr>) =
       (Inr (), example_state\<lparr>reachable := False,
                  status := WaitingStatus ''Waiting for container to be ready''\<rparr>)
   \<and> can_connect (example_state\<lparr>fs := Map.empty\<rparr>)
   \<and> \<not> exists_path (example_state\<lparr>fs := Map.empty\<rparr>) BASE_CONFIG_PATH
   \<and> configure example_template (example_state\<lparr>fs := Map.empty\<rparr>) =
       (Inr (), example_state\<lparr>fs := Map.empty,
                  status := WaitingStatus ''Waiting for storage to be attached''\<rparr>)"
proof -
  have p: "fully_populated example_state"
    by (simp add: fully_populated_iff example_populated)
  have p1: "fully_populated (example_state\<lparr>reachable := False\<rparr>)"
    using p by (simp add: fully_populated_def)
  have p2: "fully_populated (example_state\<lparr>fs := Map.empty\<rparr>)"
    using p by (simp add: fully_populated_def)
  have c1: "\<not> can_connect (example_state\<lparr>reachable := False\<rparr>)"
    by (simp add: can_connect_def)
  have c2: "can_connect (example_state\<lparr>fs := Map.empty\<rparr>)"
    by (simp add: can_connect_def example_state_def)
  have e2: "\<not> exists_path (example_state\<lparr>fs := Map.empty\<rparr>) BASE_CONFIG_PATH"
    by (simp add: exists_path_def)
  show ?thesis
    using p c1 c2 e2
      waiting_when_not_ready [OF p1, of example_template]
      waiting_when_not_ready [OF p2, of example_template]
    by simp
qed

lemma example_written_populated: "get_invalid_configs example_state_written = []"
  using example_populated
  by (simp add: example_state_written_def get_invalid_configs_def getters)

lemma example_written_rendered:
  "rendered_config example_template example_state_written = Inr example_content"
  using example_rendered
  by (simp add: example_state_written_def rendered_config_def getters)

lemma example_written_reachable: "can_connect example_state_written"
  by (simp add: example_state_written_def example_state_def can_connect_def)

lemma example_written_storage: "exists_path example_state_written BASE_CONFIG_PATH"
  by (simp add: example_state_written_def exists_path_def BASE_CONFIG_PATH_def)

lemma example_written_file:
  "fs example_state_written ue_config_file_path = Some (File example_content)"
  by (simp add: example_state_written_def ue_config_file_path_def BASE_CONFIG_PATH_def
      UE_CONFIG_FILE_NAME_def)

subsection \<open>A matching file: nothing is written, nothing is restarted\<close>

lemma configure_match:
  assumes "get_invalid_configs s = []" "can_connect s" "exists_path s BASE_CONFIG_PATH"
    and "rendered_config tmpl s = Inr content"
    and "fs s ue_config_file_path = Some (File content)"
  shows "configure tmpl s = (Inr (), s\<lparr>status := ActiveStatus\<rparr>)"
  using assms(4,5)
  by (simp add: configure_ready [OF assms(1-3)] matches_file)

text \<open>
  Claim C1. With every required field present, the container reachable, the storage
  attached and the managed file already holding the rendered text, the reconciliation
  only sets the status to Active. The state it returns satisfies the same conditions,
  so a second invocation returns the same state again: it adds no write and no restart
  (indeed no command at all) to those of the first, which added none itself.
\<close>

theorem configure_twice_on_match:
  assumes "fully_populated s" "can_connect s" "exists_path s BASE_CONFIG_PATH"
    and "rendered_config tmpl s = Inr content"
    and "fs s ue_config_file_path = Some (File content)"
  shows "configure tmpl s = (Inr (), s\<lparr>status := ActiveStatus\<rparr>)
       \<and> configure tmpl (snd (configure tmpl s)) = (Inr (), s\<lparr>status := ActiveStatus\<rparr>)
       \<and> calls (snd (configure tmpl (snd (configure tmpl s)))) = calls (snd (configure tmpl s))
       \<and> count_calls is_push (snd (configure tmpl (snd (configure tmpl s))))
           = count_calls is_push (snd (configure tmpl s))
       \<and> count_calls is_restart (snd (configure tmpl (snd (configure tmpl s))))
           = count_calls is_restart (snd (configure tmpl s))"
proof -
  from assms(1) have valid: "get_invalid_configs s = []"
    by (simp add: fully_populated_iff)
  have first: "configure tmpl s = (Inr (), s\<lparr>status := ActiveStatus\<rparr>)"
    by (rule configure_match [OF valid assms(2-5)])
  have second: "configure tmpl (s\<lparr>status := ActiveStatus\<rparr>) = (Inr (), s\<lparr>status := ActiveStatus\<rparr>)"
    using configure_match [of "s\<lparr>status := ActiveStatus\<rparr>" tmpl content] valid assms(2-5)
    by simp
  show ?thesis
    by (simp add: first second count_calls_def)
qed

theorem configure_twice_on_match_witness:
  "fully_populated example_state_written
   \<and> can_connect example_state_written
   \<and> exists_path example_state_written BASE_CONFIG_PATH
   \<and> rendered_config example_template example_state_written = Inr example_content
   \<and> fs example_state_written ue_config_file_path = Some (File example_content)
   \<and> configure example_template (snd (configure example_template example_state_written))
       = (Inr (), example_state_written)
   \<and> count_calls is_push
        (snd (configure example_template (snd (configure example_template example_state_written)))) = 0
   \<and> count_calls is_restart
        (snd (configure example_template (snd (configure example_template example_state_written)))) = 0"
proof -
  have p: "fully_populated example_state_written"
    by (simp add: fully_populated_iff example_written_populated)
  note r = configure_twice_on_match [OF p example_written_reachable example_written_storage
      example_written_rendered example_written_file]
  have st: "example_state_written\<lparr>status := ActiveStatus\<rparr> = example_state_written"
    by (simp add: example_state_written_def)
  have c: "calls example_state_written = []"
    by (simp add: example_state_written_def example_state_def)
  show ?thesis
    using p example_written_reachable example_written_storage example_written_rendered
      example_written_file r
    by (simp add: st count_calls_def c)
qed

subsection \<open>A missing or different file: one write, then the layer\<close>

lemma configure_mismatch:
  assumes "get_invalid_configs s = []" "can_connect s" "exists_path s BASE_CONFIG_PATH"
    and "rendered_config tmpl s = Inr content"
    and "config_file_content_matches s content = Inr False"
  shows "configure tmpl s =
     (case push_fault s of
        Some e \<Rightarrow> (Inl e, s\<lparr>calls := calls s @ [Push ue_config_file_path content]\<rparr>)
      | None \<Rightarrow>
         (case add_layer_fault s of
            Some e \<Rightarrow>
              (Inl e, s\<lparr>calls := calls s @ [Push ue_config_file_path content,
                                             AddLayer ''uesim'' uesim_pebble_layer True],
                        fs := (fs s)(ue_config_file_path \<mapsto> File content)\<rparr>)
          | None \<Rightarrow>
              (Inr (), s\<lparr>calls := calls s @ [Push ue_config_file_path content,
                                             AddLayer ''uesim'' uesim_pebble_layer True]
                                  @ (if ue_running s then [Restart uesim_service_name] else []),
                        fs := (fs s)(ue_config_file_path \<mapsto> File content),
                        plan := plan s ++ services uesim_pebble_layer,
                        status := ActiveStatus\<rparr>)))"
  using assms(4,5)
  by (simp add: configure_ready [OF assms(1-3)] write_config_file_eq workload_forced
      split: option.splits)

text \<open>
  Claim C4. With every required field present, the container reachable, the storage
  attached, the renderer returning its text, and the managed file absent or holding a
  different text, and when neither the write nor the layer fails: the reconciliation
  sends exactly one write, of the rendered text to \<open>/etc/ue.yaml\<close>, then applies the
  layer \<open>uesim\<close> with \<open>combine=True\<close> whatever the current plan is (the restart request
  forces it), then sends the restart command if the stored flag is set, and ends with
  the status Active. Afterwards the file holds the rendered text. The comparison is
  equality of the whole text, and an absent file never matches.
\<close>

theorem configure_writes_on_mismatch:
  assumes "fully_populated s" "can_connect s" "exists_path s BASE_CONFIG_PATH"
    and "rendered_config tmpl s = Inr content"
    and "fs s ue_config_file_path = None
         \<or> (\<exists>old. fs s ue_config_file_path = Some (File old) \<and> old \<noteq> content)"
    and "push_fault s = None" "add_layer_fault s = None"
  shows "configure tmpl s =
           (Inr (), s\<lparr>calls := calls s @ [Push ue_config_file_path content,
                                          AddLayer ''uesim'' uesim_pebble_layer True]
                               @ (if ue_running s then [Restart uesim_service_name] else []),
                     fs := (fs s)(ue_config_file_path \<mapsto> File content),
                     plan := plan s ++ services uesim_pebble_layer,
                     status := ActiveStatus\<rparr>)
       \<and> count_calls is_push (snd (configure tmpl s)) = count_calls is_push s + 1
       \<and> count_calls is_add_layer (snd (configure tmpl s)) = count_calls is_add_layer s + 1
       \<and> config_file_content_matches s content = Inr False
       \<and> (\<forall>old text. fs s ue_config_file_path = Some (File old) \<longrightarrow>
             config_file_content_matches s text = Inr (old = text))
       \<and> (\<forall>text. fs s ue_config_file_path = None \<longrightarrow>
             config_file_content_matches s text = Inr False)"
proof -
  from assms(1) have valid: "get_invalid_configs s = []"
    by (simp add: fully_populated_iff)
  from assms(5) have differs: "config_file_content_matches s content = Inr False"
    by (auto simp: matches_file matches_absent)
  have run: "configure tmpl s =
           (Inr (), s\<lparr>calls := calls s @ [Push ue_config_file_path content,
                                          AddLayer ''uesim'' uesim_pebble_layer True]
                               @ (if ue_running s then [Restart uesim_service_name] else []),
                     fs := (fs s)(ue_config_file_path \<mapsto> File content),
                     plan := plan s ++ services uesim_pebble_layer,
                     status := ActiveStatus\<rparr>)"
    using assms(6,7)
    by (simp add: configure_mismatch [OF valid assms(2-4) differs])
  show ?thesis
    by (simp add: run differs count_calls_def matches_file matches_absent)
qed

theorem configure_writes_on_mismatch_witness:
  "fully_populated example_state \<and> can_connect example_state
   \<and> exists_path example_state BASE_CONFIG_PATH
   \<and> rendered_config example_template example_state = Inr example_content
   \<and> fs example_state ue_config_file_path = None
   \<and> push_fault example_state = None \<and> add_layer_fault example_state = None
   \<and> configure example_template example_state =
       (Inr (), example_state\<lparr>
          calls := [Push ''/etc/ue.yaml'' ''supi: imsi-001010000000001'',
                    AddLayer ''uesim'' uesim_pebble_layer True],
          fs := [''/etc'' \<mapsto> Dir, ''/etc/ue.yaml'' \<mapsto> File ''supi: imsi-001010000000001''],
          plan := services uesim_pebble_layer,
          status := ActiveStatus\<rparr>)"
proof -
  have p: "fully_populated example_state"
    by (simp add: fully_populated_iff example_populated)
  have c: "can_connect example_state"
    by (simp add: can_connect_def example_state_def)
  have f: "fs example_state ue_config_file_path = None
           \<or> (\<exists>old. fs example_state ue_config_file_path = Some (File old) \<and> old \<noteq> example_content)"
    by (simp add: example_no_file)
  have pf: "push_fault example_state = None" and af: "add_layer_fault example_state = None"
    by (simp_all add: example_state_def)
  note r = configure_writes_on_mismatch [OF p c example_storage example_rendered f pf af]
  have "configure example_template example_state =
       (Inr (), example_state\<lparr>
          calls := [Push ''/etc/ue.yaml'' ''supi: imsi-001010000000001'',
                    AddLayer ''uesim'' uesim_pebble_layer True],
          fs := [''/etc'' \<mapsto> Dir, ''/etc/ue.yaml'' \<mapsto> File ''supi: imsi-001010000000001''],
          plan := services uesim_pebble_layer,
          status := ActiveStatus\<rparr>)"
    using r
    by (simp add: example_state_def example_content_def ue_config_file_path_def
        BASE_CONFIG_PATH_def UE_CONFIG_FILE_NAME_def)
  then show ?thesis
    using p c example_storage example_rendered example_no_file pf af by simp
qed

subsection \<open>A failing renderer or write stops the invocation\<close>

text \<open>
  Claim C6. With every required field present, the container reachable and the storage
  attached: when the renderer raises, the reconciliation raises the same error and the
  state is untouched; when the rendered text does not match the file and the write
  raises, the reconciliation raises the same error having sent the write and nothing
  after it (no layer, no restart), with the file system, the plan and the status as
  before. And whenever the reconciliation raises, whatever the cause, the status is the
  one it started with.
\<close>

theorem failure_propagates_before_layer:
  assumes "fully_populated s" "can_connect s" "exists_path s BASE_CONFIG_PATH"
  shows "(\<forall>e. rendered_config tmpl s = Inl e \<longrightarrow> configure tmpl s = (Inl e, s))
       \<and> (\<forall>e content.
             rendered_config tmpl s = Inr content
             \<and> config_file_content_matches s content = Inr False
             \<and> push_fault s = Some e \<longrightarrow>
             configure tmpl s =
               (Inl e, s\<lparr>calls := calls s @ [Push ue_config_file_path content]\<rparr>))
       \<and> (\<forall>e. fst (configure tmpl s) = Inl e \<longrightarrow>
             status (snd (configure tmpl s)) = status s)"
proof -
  from assms(1) have valid: "get_invalid_configs s = []"
    by (simp add: fully_populated_iff)
  have a: "\<forall>e. rendered_config tmpl s = Inl e \<longrightarrow> configure tmpl s = (Inl e, s)"
    by (simp add: configure_ready [OF valid assms(2,3)])
  have b: "\<forall>e content.
             rendered_config tmpl s = Inr content
             \<and> config_file_content_matches s content = Inr False
             \<and> push_fault s = Some e \<longrightarrow>
             configure tmpl s =
               (Inl e, s\<lparr>calls := calls s @ [Push ue_config_file_path content]\<rparr>)"
    by (simp add: configure_mismatch [OF valid assms(2,3)])
  show ?thesis
    using a b configure_failure_status by blast
qed

theorem failure_propagates_before_layer_witness:
  "fully_populated example_state \<and> can_connect example_state
   \<and> exists_path example_state BASE_CONFIG_PATH
   \<and> rendered_config broken_template example_state = Inl TemplateError
   \<and> configure broken_template example_state = (Inl TemplateError, example_state)
   \<and> push_fault (example_state\<lparr>push_fault := Some PathError\<rparr>) = Some PathError
   \<and> configure example_template (example_state\<lparr>push_fault := Some PathError\<rparr>) =
       (Inl PathError,
        example_state\<lparr>push_fault := Some PathError,
                      calls := [Push ''/etc/ue.yaml'' ''supi: imsi-001010000000001'']\<rparr>)"
proof -
  let ?s = "example_state\<lparr>push_fault := Some PathError\<rparr>"
  have p: "fully_populated example_state"
    by (simp add: fully_populated_iff example_populated)
  have c: "can_connect example_state"
    by (simp add: can_connect_def example_state_def)
  have rb: "rendered_config broken_template example_state = Inl TemplateError"
    by (simp add: rendered_config_def render_ue_config_file_def broken_template_def)
  have p': "fully_populated ?s"
    using p by (simp add: fully_populated_def)
  have c': "can_connect ?s"
    using c by (simp add: can_connect_def)
  have e': "exists_path ?s BASE_CONFIG_PATH"
    using example_storage by (simp add: exists_path_def)
  have r': "rendered_config example_template ?s = Inr example_content"
    using example_rendered by (simp add: rendered_config_def getters)
  have m': "config_file_content_matches ?s example_content = Inr False"
    using example_no_file by (simp add: matches_absent)
  note t1 = failure_propagates_before_layer [OF p c example_storage, of broken_template]
  note t2 = failure_propagates_before_layer [OF p' c' e', of example_template]
  have x1: "configure broken_template example_state = (Inl TemplateError, example_state)"
    using t1 rb by blast
  have "configure example_template ?s =
          (Inl PathError, ?s\<lparr>calls := calls ?s @ [Push ue_config_file_path example_content]\<rparr>)"
    using t2 r' m' by simp
  then have x2: "configure example_template ?s =
       (Inl PathError,
        example_state\<lparr>push_fault := Some PathError,
                      calls := [Push ''/etc/ue.yaml'' ''supi: imsi-001010000000001'']\<rparr>)"
    by (simp add: example_state_def example_content_def ue_config_file_path_def
        BASE_CONFIG_PATH_def UE_CONFIG_FILE_NAME_def)
  show ?thesis
    using p c example_storage rb x1 x2 by simp
qed

subsection \<open>A matching file leaves the plan as it is\<close>

text \<open>
  Claim C3. The claim says that with a matching file the layer is still reconciled:
  applied when the services of the current plan differ from those of the layer. The
  source calls \<open>configure_uesim_workload\<close> only inside the branch of the file mismatch,
  and there with the restart request, so the comparison of the plan with the layer that
  the helper makes never decides anything. With a matching file the reconciliation sends
  no command at all and the plan stays as it is: a plan that differs from the layer
  still differs afterwards. The part of the claim that holds: no write, no restart,
  status Active. The theorem states what the source does; its witness is the state in
  which the plan is empty while the file matches, and shows next to it what the helper
  does there when it is called without the restart request: it applies the layer.
\<close>

theorem matching_file_skips_layer:
  assumes "fully_populated s" "can_connect s" "exists_path s BASE_CONFIG_PATH"
    and "rendered_config tmpl s = Inr content"
    and "fs s ue_config_file_path = Some (File content)"
  shows "configure tmpl s = (Inr (), s\<lparr>status := ActiveStatus\<rparr>)
       \<and> plan (snd (configure tmpl s)) = plan s
       \<and> (get_plan s \<noteq> services uesim_pebble_layer \<longrightarrow>
            get_plan (snd (configure tmpl s)) \<noteq> services uesim_pebble_layer)
       \<and> count_calls is_add_layer (snd (configure tmpl s)) = count_calls is_add_layer s
       \<and> count_calls is_push (snd (configure tmpl s)) = count_calls is_push s
       \<and> count_calls is_restart (snd (configure tmpl s)) = count_calls is_restart s"
proof -
  from assms(1) have valid: "get_invalid_configs s = []"
    by (simp add: fully_populated_iff)
  show ?thesis
    by (simp add: configure_match [OF valid assms(2-5)] count_calls_def get_plan_def)
qed

theorem matching_file_skips_layer_witness:
  "fully_populated example_state_written \<and> can_connect example_state_written
   \<and> exists_path example_state_written BASE_CONFIG_PATH
   \<and> rendered_config example_template example_state_written = Inr example_content
   \<and> fs example_state_written ue_config_file_path = Some (File example_content)
   \<and> get_plan example_state_written \<noteq> services uesim_pebble_layer
   \<and> configure example_template example_state_written = (Inr (), example_state_written)
   \<and> plan (snd (configure example_template example_state_written)) = Map.empty
   \<and> calls (snd (configure example_template example_state_written)) = []
   \<and> calls (snd (configure_uesim_workload False example_state_written))
       = [AddLayer ''uesim'' uesim_pebble_layer True]"
proof -
  have p: "fully_populated example_state_written"
    by (simp add: fully_populated_iff example_written_populated)
  note r = matching_file_skips_layer [OF p example_written_reachable example_written_storage
      example_written_rendered example_written_file]
  have st: "example_state_written\<lparr>status := ActiveStatus\<rparr> = example_state_written"
    by (simp add: example_state_written_def)
  have pl: "plan example_state_written = Map.empty"
    and c: "calls example_state_written = []"
    and u: "\<not> ue_running example_state_written"
    and af: "add_layer_fault example_state_written = None"
    by (simp_all add: example_state_written_def example_state_def)
  have d: "get_plan example_state_written \<noteq> services uesim_pebble_layer"
  proof
    assume "get_plan example_state_written = services uesim_pebble_layer"
    then have "get_plan example_state_written uesim_service_name
               = services uesim_pebble_layer uesim_service_name"
      by simp
    then show False
      by (simp add: get_plan_def pl uesim_pebble_layer_def)
  qed
  have w: "calls (snd (configure_uesim_workload False example_state_written))
       = [AddLayer ''uesim'' uesim_pebble_layer True]"
    using d u af
    by (simp add: configure_uesim_workload_def add_layer_combine_def Let_def c)
  show ?thesis
    using p example_written_reachable example_written_storage example_written_rendered
      example_written_file d r w
    by (simp add: st pl c)
qed

subsection \<open>The action handlers\<close>

lemma configure_reachable: "reachable (snd (configure tmpl s)) = reachable s"
  by (simp add: configure_def Let_def write_config_file_eq workload_forced
      split: sum.splits option.splits bool.splits)

lemma start_eq:
  "start svc s =
     (if \<not> reachable s then Inl ConnectionError
      else if plan s svc = None then Inl APIError
      else Inr (),
      s\<lparr>calls := calls s @ [Start svc]\<rparr>)"
  by (simp add: start_def Let_def)

lemma stop_eq:
  "stop svc s =
     (if \<not> reachable s then Inl ConnectionError
      else if plan s svc = None then Inl APIError
      else Inr (),
      s\<lparr>calls := calls s @ [Stop svc]\<rparr>)"
  by (simp add: stop_def Let_def)

lemma on_start_cases:
  "on_start_ue_action tmpl s =
     (if fst (configure tmpl s) = Inr () \<and> \<not> ue_running s then
        (case start uesim_service_name (snd (configure tmpl s)) of
           (Inl e, s2) \<Rightarrow> (Inl e, s2)
         | (Inr v, s2) \<Rightarrow> (Inr (), s2\<lparr>ue_running := True\<rparr>))
      else configure tmpl s)"
proof (cases "configure tmpl s")
  case (Pair r s1)
  with configure_ue_running [of tmpl s] have "ue_running s1 = ue_running s"
    by simp
  with Pair show ?thesis
    by (cases r) (simp_all add: on_start_ue_action_def)
qed

lemma on_stop_cases:
  "on_stop_ue_action tmpl s =
     (if fst (configure tmpl s) = Inr () \<and> ue_running s then
        (case stop uesim_service_name (snd (configure tmpl s)) of
           (Inl e, s2) \<Rightarrow> (Inl e, s2)
         | (Inr v, s2) \<Rightarrow> (Inr (), s2\<lparr>ue_running := False\<rparr>))
      else configure tmpl s)"
proof (cases "configure tmpl s")
  case (Pair r s1)
  with configure_ue_running [of tmpl s] have "ue_running s1 = ue_running s"
    by simp
  with Pair show ?thesis
    by (cases r) (simp_all add: on_stop_ue_action_def)
qed

lemma on_start_when_set: "ue_running s \<Longrightarrow> on_start_ue_action tmpl s = configure tmpl s"
  by (simp add: on_start_cases)

lemma on_stop_when_unset: "\<not> ue_running s \<Longrightarrow> on_stop_ue_action tmpl s = configure tmpl s"
  by (simp add: on_stop_cases)

lemma on_start_succeeds:
  assumes "\<not> ue_running s" "fst (configure tmpl s) = Inr ()" "can_connect s"
    and "plan (snd (configure tmpl s)) uesim_service_name \<noteq> None"
  shows "on_start_ue_action tmpl s =
           (Inr (), (snd (configure tmpl s))
                      \<lparr>calls := calls (snd (configure tmpl s)) @ [Start uesim_service_name],
                       ue_running := True\<rparr>)"
  using assms
  by (simp add: on_start_cases start_eq configure_reachable can_connect_def)

lemma on_start_raises:
  assumes "\<not> ue_running s"
    and "\<not> (fst (configure tmpl s) = Inr () \<and> can_connect s
            \<and> plan (snd (configure tmpl s)) uesim_service_name \<noteq> None)"
  shows "(\<exists>e. fst (on_start_ue_action tmpl s) = Inl e)
       \<and> \<not> ue_running (snd (on_start_ue_action tmpl s))"
proof (cases "fst (configure tmpl s)")
  case (Inl e)
  with assms(1) show ?thesis
    by (simp add: on_start_cases configure_ue_running)
next
  case (Inr u)
  with assms show ?thesis
    by (auto simp: on_start_cases start_eq configure_reachable can_connect_def
        configure_ue_running)
qed

lemma on_stop_succeeds:
  assumes "ue_running s" "fst (configure tmpl s) = Inr ()" "can_connect s"
    and "plan (snd (configure tmpl s)) uesim_service_name \<noteq> None"
  shows "on_stop_ue_action tmpl s =
           (Inr (), (snd (configure tmpl s))
                      \<lparr>calls := calls (snd (configure tmpl s)) @ [Stop uesim_service_name],
                       ue_running := False\<rparr>)"
  using assms
  by (simp add: on_stop_cases stop_eq configure_reachable can_connect_def)

lemma on_stop_raises:
  assumes "ue_running s"
    and "\<not> (fst (configure tmpl s) = Inr () \<and> can_connect s
            \<and> plan (snd (configure tmpl s)) uesim_service_name \<noteq> None)"
  shows "(\<exists>e. fst (on_stop_ue_action tmpl s) = Inl e)
       \<and> ue_running (snd (on_stop_ue_action tmpl s))"
proof (cases "fst (configure tmpl s)")
  case (Inl e)
  with assms(1) show ?thesis
    by (simp add: on_stop_cases configure_ue_running)
next
  case (Inr u)
  with assms show ?thesis
    by (auto simp: on_stop_cases stop_eq configure_reachable can_connect_def
        configure_ue_running)
qed

lemma action_restarts:
  "filter is_restart (calls (snd (on_start_ue_action tmpl s)))
     = filter is_restart (calls (snd (configure tmpl s)))"
  "filter is_restart (calls (snd (on_stop_ue_action tmpl s)))
     = filter is_restart (calls (snd (configure tmpl s)))"
  by (simp_all add: on_start_cases on_stop_cases start_eq stop_eq)

lemma example_configure:
  "configure example_template example_state =
     (Inr (), example_state\<lparr>
        calls := [Push ''/etc/ue.yaml'' ''supi: imsi-001010000000001'',
                  AddLayer ''uesim'' uesim_pebble_layer True],
        fs := [''/etc'' \<mapsto> Dir, ''/etc/ue.yaml'' \<mapsto> File ''supi: imsi-001010000000001''],
        plan := services uesim_pebble_layer,
        status := ActiveStatus\<rparr>)"
proof -
  have c: "can_connect example_state"
    by (simp add: can_connect_def example_state_def)
  have m: "config_file_content_matches example_state example_content = Inr False"
    by (simp add: matches_absent example_no_file)
  note r = configure_mismatch [OF example_populated c example_storage example_rendered m]
  show ?thesis
    unfolding r
    by (simp add: example_state_def example_content_def ue_config_file_path_def
        BASE_CONFIG_PATH_def UE_CONFIG_FILE_NAME_def)
qed

lemma example_started_configure:
  "configure example_template example_state_started = (Inr (), example_state_started)"
proof -
  let ?s = "example_state_started"
  have v: "get_invalid_configs ?s = []"
    using example_written_populated
    by (simp add: example_state_started_def get_invalid_configs_def getters)
  have c: "can_connect ?s"
    using example_written_reachable by (simp add: example_state_started_def can_connect_def)
  have e: "exists_path ?s BASE_CONFIG_PATH"
    using example_written_storage by (simp add: example_state_started_def exists_path_def)
  have r: "rendered_config example_template ?s = Inr example_content"
    using example_written_rendered
    by (simp add: example_state_started_def rendered_config_def getters)
  have f: "fs ?s ue_config_file_path = Some (File example_content)"
    using example_written_file by (simp add: example_state_started_def)
  have st: "?s\<lparr>status := ActiveStatus\<rparr> = ?s"
    by (simp add: example_state_started_def example_state_written_def)
  show ?thesis
    using configure_match [OF v c e r f] by (simp add: st)
qed

lemma example_unreachable_configure:
  "configure tmpl (example_state\<lparr>reachable := False\<rparr>) =
     (Inr (), example_state\<lparr>reachable := False,
                status := WaitingStatus ''Waiting for container to be ready''\<rparr>)"
proof -
  have v: "get_invalid_configs (example_state\<lparr>reachable := False\<rparr>) = []"
    using example_populated by (simp add: get_invalid_configs_def getters)
  show ?thesis
    using configure_unreachable [OF v, of tmpl] by (simp add: can_connect_def)
qed

lemma example_started_unreachable_configure:
  "configure tmpl (example_state_started\<lparr>reachable := False\<rparr>) =
     (Inr (), example_state_started\<lparr>reachable := False,
                status := WaitingStatus ''Waiting for container to be ready''\<rparr>)"
proof -
  have v: "get_invalid_configs (example_state_started\<lparr>reachable := False\<rparr>) = []"
    using example_written_populated
    by (simp add: example_state_started_def get_invalid_configs_def getters)
  show ?thesis
    using configure_unreachable [OF v, of tmpl] by (simp add: can_connect_def)
qed

lemma example_broken_configure:
  "configure broken_template example_state = (Inl TemplateError, example_state)"
  "configure broken_template example_state_started = (Inl TemplateError, example_state_started)"
proof -
  have c: "can_connect example_state"
    by (simp add: can_connect_def example_state_def)
  have rb: "rendered_config broken_template example_state = Inl TemplateError"
    by (simp add: rendered_config_def render_ue_config_file_def broken_template_def)
  show "configure broken_template example_state = (Inl TemplateError, example_state)"
    by (simp add: configure_ready [OF example_populated c example_storage] rb)
  have v: "get_invalid_configs example_state_started = []"
    using example_written_populated
    by (simp add: example_state_started_def get_invalid_configs_def getters)
  have c': "can_connect example_state_started"
    using example_written_reachable by (simp add: example_state_started_def can_connect_def)
  have e': "exists_path example_state_started BASE_CONFIG_PATH"
    using example_written_storage by (simp add: example_state_started_def exists_path_def)
  have rb': "rendered_config broken_template example_state_started = Inl TemplateError"
    by (simp add: rendered_config_def render_ue_config_file_def broken_template_def)
  show "configure broken_template example_state_started
          = (Inl TemplateError, example_state_started)"
    by (simp add: configure_ready [OF v c' e'] rb')
qed

text \<open>
  Claim C7, as stated, fails: it speaks of every state whose stored flag is unset, and
  the handler sets the flag only when nothing before line 120 of the source raises. With
  the container unreachable the reconciliation returns normally with the status Waiting,
  the start command then raises, and the flag stays unset; with a template that cannot
  be rendered the reconciliation itself raises, no start command is sent at all, and the
  flag stays unset.
\<close>

theorem start_handler_counterexample:
  "\<not> ue_running (example_state\<lparr>reachable := False\<rparr>)
   \<and> on_start_ue_action example_template (example_state\<lparr>reachable := False\<rparr>) =
       (Inl ConnectionError,
        example_state\<lparr>reachable := False,
                      status := WaitingStatus ''Waiting for container to be ready'',
                      calls := [Start ''uesim'']\<rparr>)
   \<and> \<not> ue_running (snd (on_start_ue_action example_template
                             (example_state\<lparr>reachable := False\<rparr>)))
   \<and> \<not> ue_running example_state
   \<and> on_start_ue_action broken_template example_state = (Inl TemplateError, example_state)
   \<and> count_calls is_start (snd (on_start_ue_action broken_template example_state)) = 0"
proof -
  have u: "\<not> ue_running example_state" and c0: "calls example_state = []"
    by (simp_all add: example_state_def)
  have a: "on_start_ue_action example_template (example_state\<lparr>reachable := False\<rparr>) =
       (Inl ConnectionError,
        example_state\<lparr>reachable := False,
                      status := WaitingStatus ''Waiting for container to be ready'',
                      calls := [Start ''uesim'']\<rparr>)"
    using u
    by (simp add: on_start_cases example_unreachable_configure start_eq
        uesim_service_name_def c0)
  have b: "on_start_ue_action broken_template example_state = (Inl TemplateError, example_state)"
    by (simp add: on_start_cases example_broken_configure)
  show ?thesis
    using u by (simp add: a b count_calls_def c0)
qed

text \<open>
  Claim C7, amended. From a state whose stored flag is unset: when the reconciliation
  pass of the handler returns without raising, the container can be reached and the
  plan left by the reconciliation has the service \<open>uesim\<close>, the Start handler returns
  normally, having sent exactly one start command for \<open>uesim\<close> after the commands of the
  reconciliation, and sets the flag; a second Start right after it is the
  reconciliation pass and nothing else, so it sends no further start command, whether
  that pass returns or raises. When one of the three conditions fails, the handler
  raises and the flag stays unset.
\<close>

theorem start_handler_contract:
  assumes "\<not> ue_running s"
  shows "(fst (configure tmpl s) = Inr () \<and> can_connect s
          \<and> plan (snd (configure tmpl s)) uesim_service_name \<noteq> None \<longrightarrow>
            on_start_ue_action tmpl s =
              (Inr (), (snd (configure tmpl s))
                         \<lparr>calls := calls (snd (configure tmpl s)) @ [Start uesim_service_name],
                          ue_running := True\<rparr>)
            \<and> ue_running (snd (on_start_ue_action tmpl s))
            \<and> count_calls is_start (snd (on_start_ue_action tmpl s))
                = count_calls is_start s + 1
            \<and> on_start_ue_action tmpl (snd (on_start_ue_action tmpl s))
                = configure tmpl (snd (on_start_ue_action tmpl s))
            \<and> count_calls is_start
                 (snd (on_start_ue_action tmpl (snd (on_start_ue_action tmpl s))))
                = count_calls is_start (snd (on_start_ue_action tmpl s)))
       \<and> (\<not> (fst (configure tmpl s) = Inr () \<and> can_connect s
               \<and> plan (snd (configure tmpl s)) uesim_service_name \<noteq> None) \<longrightarrow>
            (\<exists>e. fst (on_start_ue_action tmpl s) = Inl e)
            \<and> \<not> ue_running (snd (on_start_ue_action tmpl s)))"
proof (intro conjI impI)
  assume ok: "fst (configure tmpl s) = Inr () \<and> can_connect s
              \<and> plan (snd (configure tmpl s)) uesim_service_name \<noteq> None"
  let ?s1 = "snd (on_start_ue_action tmpl s)"
  show first: "on_start_ue_action tmpl s =
              (Inr (), (snd (configure tmpl s))
                         \<lparr>calls := calls (snd (configure tmpl s)) @ [Start uesim_service_name],
                          ue_running := True\<rparr>)"
    using on_start_succeeds [OF assms] ok by blast
  show flag: "ue_running ?s1"
    by (simp add: first)
  show "count_calls is_start ?s1 = count_calls is_start s + 1"
    by (simp add: first count_calls_def configure_starts)
  show second: "on_start_ue_action tmpl ?s1 = configure tmpl ?s1"
    using flag by (rule on_start_when_set)
  show "count_calls is_start (snd (on_start_ue_action tmpl ?s1)) = count_calls is_start ?s1"
    by (simp add: second count_calls_def configure_starts)
next
  assume bad: "\<not> (fst (configure tmpl s) = Inr () \<and> can_connect s
                  \<and> plan (snd (configure tmpl s)) uesim_service_name \<noteq> None)"
  from on_start_raises [OF assms bad]
  show "\<exists>e. fst (on_start_ue_action tmpl s) = Inl e"
    and "\<not> ue_running (snd (on_start_ue_action tmpl s))"
    by blast+
qed

theorem start_handler_contract_witness:
  "\<not> ue_running example_state
   \<and> fst (configure example_template example_state) = Inr ()
   \<and> can_connect example_state
   \<and> plan (snd (configure example_template example_state)) uesim_service_name \<noteq> None
   \<and> on_start_ue_action example_template example_state =
       (Inr (), example_state\<lparr>
          calls := [Push ''/etc/ue.yaml'' ''supi: imsi-001010000000001'',
                    AddLayer ''uesim'' uesim_pebble_layer True,
                    Start ''uesim''],
          fs := [''/etc'' \<mapsto> Dir, ''/etc/ue.yaml'' \<mapsto> File ''supi: imsi-001010000000001''],
          plan := services uesim_pebble_layer,
          status := ActiveStatus,
          ue_running := True\<rparr>)
   \<and> count_calls is_start
        (snd (on_start_ue_action example_template
               (snd (on_start_ue_action example_template example_state)))) = 1
   \<and> \<not> can_connect (example_state\<lparr>reachable := False\<rparr>)
   \<and> fst (on_start_ue_action example_template (example_state\<lparr>reachable := False\<rparr>))
       = Inl ConnectionError
   \<and> \<not> ue_running (snd (on_start_ue_action example_template
                             (example_state\<lparr>reachable := False\<rparr>)))"
proof -
  let ?q = "example_state\<lparr>reachable := False\<rparr>"
  have u: "\<not> ue_running example_state" and c0: "calls example_state = []"
    by (simp_all add: example_state_def)
  have ok: "fst (configure example_template example_state) = Inr ()"
    by (simp add: example_configure)
  have c: "can_connect example_state"
    by (simp add: can_connect_def example_state_def)
  have pl: "plan (snd (configure example_template example_state)) uesim_service_name \<noteq> None"
    by (simp add: example_configure uesim_pebble_layer_def)
  note r = start_handler_contract [OF u, of example_template]
  have c0s: "count_calls is_start example_state = 0"
    by (simp add: count_calls_def c0)
  have first: "on_start_ue_action example_template example_state =
       (Inr (), example_state\<lparr>
          calls := [Push ''/etc/ue.yaml'' ''supi: imsi-001010000000001'',
                    AddLayer ''uesim'' uesim_pebble_layer True,
                    Start ''uesim''],
          fs := [''/etc'' \<mapsto> Dir, ''/etc/ue.yaml'' \<mapsto> File ''supi: imsi-001010000000001''],
          plan := services uesim_pebble_layer,
          status := ActiveStatus,
          ue_running := True\<rparr>)"
  proof -
    from r ok c pl have "on_start_ue_action example_template example_state =
        (Inr (), (snd (configure example_template example_state))
                   \<lparr>calls := calls (snd (configure example_template example_state))
                             @ [Start uesim_service_name],
                    ue_running := True\<rparr>)"
      by blast
    then show ?thesis
      by (simp add: example_configure uesim_service_name_def)
  qed
  have twice: "count_calls is_start
        (snd (on_start_ue_action example_template
               (snd (on_start_ue_action example_template example_state)))) = 1"
  proof -
    from r ok c pl
    have a: "count_calls is_start (snd (on_start_ue_action example_template example_state))
               = count_calls is_start example_state + 1"
      by blast
    from r ok c pl
    have b: "count_calls is_start
        (snd (on_start_ue_action example_template
               (snd (on_start_ue_action example_template example_state))))
        = count_calls is_start (snd (on_start_ue_action example_template example_state))"
      by blast
    from a b c0s show ?thesis
      by linarith
  qed
  have uq: "\<not> ue_running ?q" and cq: "\<not> can_connect ?q"
    using u by (simp_all add: can_connect_def)
  have fq: "fst (on_start_ue_action example_template ?q) = Inl ConnectionError"
    using uq
    by (simp add: on_start_cases example_unreachable_configure start_eq)
  have gq: "\<not> ue_running (snd (on_start_ue_action example_template ?q))"
    using start_handler_contract [OF uq, of example_template] cq by blast
  show ?thesis
    using u ok c pl first twice cq fq gq by blast
qed

text \<open>
  Claim C8, as stated, fails: it speaks of every state whose stored flag is set, and the
  handler clears the flag only when nothing before line 128 of the source raises. With
  the container unreachable the reconciliation returns normally with the status Waiting,
  the stop command then raises, and the flag stays set; with a template that cannot be
  rendered the reconciliation itself raises, no stop command is sent at all, and the
  flag stays set.
\<close>

theorem stop_handler_counterexample:
  "ue_running (example_state_started\<lparr>reachable := False\<rparr>)
   \<and> on_stop_ue_action example_template (example_state_started\<lparr>reachable := False\<rparr>) =
       (Inl ConnectionError,
        example_state_started\<lparr>reachable := False,
                              status := WaitingStatus ''Waiting for container to be ready'',
                              calls := [Stop ''uesim'']\<rparr>)
   \<and> ue_running (snd (on_stop_ue_action example_template
                          (example_state_started\<lparr>reachable := False\<rparr>)))
   \<and> ue_running example_state_started
   \<and> on_stop_ue_action broken_template example_state_started
       = (Inl TemplateError, example_state_started)
   \<and> count_calls is_stop (snd (on_stop_ue_action broken_template example_state_started)) = 0"
proof -
  have u: "ue_running example_state_started" and c0: "calls example_state_started = []"
    by (simp_all add: example_state_started_def example_state_written_def example_state_def)
  have a: "on_stop_ue_action example_template (example_state_started\<lparr>reachable := False\<rparr>) =
       (Inl ConnectionError,
        example_state_started\<lparr>reachable := False,
                              status := WaitingStatus ''Waiting for container to be ready'',
                              calls := [Stop ''uesim'']\<rparr>)"
    using u
    by (simp add: on_stop_cases example_started_unreachable_configure stop_eq
        uesim_service_name_def c0)
  have b: "on_stop_ue_action broken_template example_state_started
             = (Inl TemplateError, example_state_started)"
    by (simp add: on_stop_cases example_broken_configure)
  show ?thesis
    using u by (simp add: a b count_calls_def c0)
qed

text \<open>
  Claim C8, amended. From a state whose stored flag is set: when the reconciliation pass
  of the handler returns without raising, the container can be reached and the plan left
  by the reconciliation has the service \<open>uesim\<close>, the Stop handler returns normally,
  having sent exactly one stop command for \<open>uesim\<close> after the commands of the
  reconciliation, and clears the flag; when one of the three conditions fails, the
  handler raises and the flag stays set. From a state whose flag is unset, the Stop
  handler is the reconciliation pass and nothing else: it sends no stop command, whether
  that pass returns or raises.
\<close>

theorem stop_handler_contract:
  "(ue_running s \<and> fst (configure tmpl s) = Inr () \<and> can_connect s
    \<and> plan (snd (configure tmpl s)) uesim_service_name \<noteq> None \<longrightarrow>
      on_stop_ue_action tmpl s =
        (Inr (), (snd (configure tmpl s))
                   \<lparr>calls := calls (snd (configure tmpl s)) @ [Stop uesim_service_name],
                    ue_running := False\<rparr>)
      \<and> \<not> ue_running (snd (on_stop_ue_action tmpl s))
      \<and> count_calls is_stop (snd (on_stop_ue_action tmpl s)) = count_calls is_stop s + 1)
   \<and> (ue_running s
       \<and> \<not> (fst (configure tmpl s) = Inr () \<and> can_connect s
              \<and> plan (snd (configure tmpl s)) uesim_service_name \<noteq> None) \<longrightarrow>
      (\<exists>e. fst (on_stop_ue_action tmpl s) = Inl e)
      \<and> ue_running (snd (on_stop_ue_action tmpl s)))
   \<and> (\<not> ue_running s \<longrightarrow>
      on_stop_ue_action tmpl s = configure tmpl s
      \<and> \<not> ue_running (snd (on_stop_ue_action tmpl s))
      \<and> count_calls is_stop (snd (on_stop_ue_action tmpl s)) = count_calls is_stop s)"
proof (intro conjI impI)
  assume ok: "ue_running s \<and> fst (configure tmpl s) = Inr () \<and> can_connect s
              \<and> plan (snd (configure tmpl s)) uesim_service_name \<noteq> None"
  then show first: "on_stop_ue_action tmpl s =
        (Inr (), (snd (configure tmpl s))
                   \<lparr>calls := calls (snd (configure tmpl s)) @ [Stop uesim_service_name],
                    ue_running := False\<rparr>)"
    using on_stop_succeeds by blast
  show "\<not> ue_running (snd (on_stop_ue_action tmpl s))"
    by (simp add: first)
  show "count_calls is_stop (snd (on_stop_ue_action tmpl s)) = count_calls is_stop s + 1"
    by (simp add: first count_calls_def configure_stops)
next
  assume bad: "ue_running s
       \<and> \<not> (fst (configure tmpl s) = Inr () \<and> can_connect s
              \<and> plan (snd (configure tmpl s)) uesim_service_name \<noteq> None)"
  then have r: "(\<exists>e. fst (on_stop_ue_action tmpl s) = Inl e)
       \<and> ue_running (snd (on_stop_ue_action tmpl s))"
    using on_stop_raises by blast
  from r show "\<exists>e. fst (on_stop_ue_action tmpl s) = Inl e"
    by blast
  from r show "ue_running (snd (on_stop_ue_action tmpl s))"
    by blast
next
  assume off: "\<not> ue_running s"
  then show same: "on_stop_ue_action tmpl s = configure tmpl s"
    by (rule on_stop_when_unset)
  from off show "\<not> ue_running (snd (on_stop_ue_action tmpl s))"
    by (simp add: same configure_ue_running)
  show "count_calls is_stop (snd (on_stop_ue_action tmpl s)) = count_calls is_stop s"
    by (simp add: same count_calls_def configure_stops)
qed

theorem stop_handler_contract_witness:
  "ue_running example_state_started
   \<and> fst (configure example_template example_state_started) = Inr ()
   \<and> can_connect example_state_started
   \<and> plan (snd (configure example_template example_state_started)) uesim_service_name \<noteq> None
   \<and> on_stop_ue_action example_template example_state_started =
       (Inr (), example_state_started\<lparr>calls := [Stop ''uesim''], ue_running := False\<rparr>)
   \<and> \<not> can_connect (example_state_started\<lparr>reachable := False\<rparr>)
   \<and> fst (on_stop_ue_action example_template (example_state_started\<lparr>reachable := False\<rparr>))
       = Inl ConnectionError
   \<and> ue_running (snd (on_stop_ue_action example_template
                          (example_state_started\<lparr>reachable := False\<rparr>)))
   \<and> \<not> ue_running example_state_written
   \<and> on_stop_ue_action example_template example_state_written = (Inr (), example_state_written)"
proof -
  let ?q = "example_state_started\<lparr>reachable := False\<rparr>"
  have u: "ue_running example_state_started" and c0: "calls example_state_started = []"
    by (simp_all add: example_state_started_def example_state_written_def example_state_def)
  have ok: "fst (configure example_template example_state_started) = Inr ()"
    by (simp add: example_started_configure)
  have c: "can_connect example_state_started"
    using example_written_reachable by (simp add: example_state_started_def can_connect_def)
  have pl: "plan (snd (configure example_template example_state_started)) uesim_service_name
              \<noteq> None"
  proof -
    have "plan example_state_started uesim_service_name \<noteq> None"
      by (simp add: example_state_started_def uesim_pebble_layer_def)
    then show ?thesis
      by (simp add: example_started_configure)
  qed
  have a: "on_stop_ue_action example_template example_state_started =
       (Inr (), example_state_started\<lparr>calls := [Stop ''uesim''], ue_running := False\<rparr>)"
  proof -
    from stop_handler_contract [of example_state_started example_template] u ok c pl
    have "on_stop_ue_action example_template example_state_started =
        (Inr (), (snd (configure example_template example_state_started))
                   \<lparr>calls := calls (snd (configure example_template example_state_started))
                             @ [Stop uesim_service_name],
                    ue_running := False\<rparr>)"
      by blast
    then show ?thesis
      by (simp add: example_started_configure uesim_service_name_def c0)
  qed
  have uq: "ue_running ?q" and cq: "\<not> can_connect ?q"
    using u by (simp_all add: can_connect_def)
  have fq: "fst (on_stop_ue_action example_template ?q) = Inl ConnectionError"
    using uq
    by (simp add: on_stop_cases example_started_unreachable_configure stop_eq)
  have gq: "ue_running (snd (on_stop_ue_action example_template ?q))"
    using stop_handler_contract [of ?q example_template] uq cq by blast
  have w: "\<not> ue_running example_state_written"
    by (simp add: example_state_written_def example_state_def)
  have st: "example_state_written\<lparr>status := ActiveStatus\<rparr> = example_state_written"
    by (simp add: example_state_written_def)
  have cw: "configure example_template example_state_written = (Inr (), example_state_written)"
    using configure_match [OF example_written_populated example_written_reachable
        example_written_storage example_written_rendered example_written_file]
    by (simp add: st)
  have b: "on_stop_ue_action example_template example_state_written
             = (Inr (), example_state_written)"
    using stop_handler_contract [of example_state_written example_template] w
    by (simp add: cw)
  show ?thesis
    using u ok c pl a cq fq gq w b by blast
qed

subsection \<open>Who changes the stored flag, and when a restart is sent\<close>

lemma install_remove_frame:
  "ue_running (snd (on_install s)) = ue_running s"
  "ue_running (snd (on_remove s)) = ue_running s"
  "filter is_restart (calls (snd (on_install s))) = filter is_restart (calls s)"
  "filter is_restart (calls (snd (on_remove s))) = filter is_restart (calls s)"
  by (simp_all add: on_install_def on_remove_def Let_def split: option.splits)

text \<open>
  Claim C9. The reconciliation never changes the stored flag \<open>ue_running\<close>: its value
  after \<open>configure\<close> is its value before, whether \<open>configure\<close> returns or raises. The
  same holds for every event that is not one of the two actions (install, remove,
  config-changed, pebble-ready), so only the Start and Stop handlers change the flag.
\<close>

theorem flag_changed_only_by_actions:
  "ue_running (snd (configure tmpl s)) = ue_running s
   \<and> (ev \<noteq> Start_ue_action \<and> ev \<noteq> Stop_ue_action \<longrightarrow>
        ue_running (snd (dispatch tmpl ev s)) = ue_running s)"
  by (cases ev) (simp_all add: configure_ue_running install_remove_frame)

theorem flag_changed_only_by_actions_witness:
  "Config_changed \<noteq> Start_ue_action \<and> Config_changed \<noteq> Stop_ue_action
   \<and> ue_running (snd (dispatch example_template Config_changed example_state)) = False
   \<and> ue_running (snd (dispatch example_template Uesim_pebble_ready
                         (example_state\<lparr>ue_running := True\<rparr>))) = True"
  using flag_changed_only_by_actions [of example_template example_state Config_changed]
    flag_changed_only_by_actions [of example_template "example_state\<lparr>ue_running := True\<rparr>"
      Uesim_pebble_ready]
  by (simp add: example_state_def)

lemma workload_restarts:
  "\<not> ue_running s \<Longrightarrow>
   filter is_restart (calls (snd (configure_uesim_workload r s))) = filter is_restart (calls s)"
  by (simp add: configure_uesim_workload_def add_layer_combine_def Let_def
      split: option.splits)

text \<open>
  Claim C10. While the stored flag is unset no restart command is sent: from a state
  with the flag unset, no handler of any event adds a restart command to those already
  sent, and every handler but Start leaves the flag unset, so this holds until Start has
  set it. In particular \<open>configure_uesim_workload\<close> sends no restart then, also when it
  is called with the restart request of the mismatch path: it applies the layer and
  returns.
\<close>

theorem no_restart_while_flag_unset:
  assumes "\<not> ue_running s"
  shows "count_calls is_restart (snd (dispatch tmpl ev s)) = count_calls is_restart s
       \<and> (ev \<noteq> Start_ue_action \<longrightarrow> \<not> ue_running (snd (dispatch tmpl ev s)))
       \<and> count_calls is_restart (snd (configure_uesim_workload r s)) = count_calls is_restart s
       \<and> (add_layer_fault s = None \<longrightarrow>
            configure_uesim_workload True s =
              (Inr (), s\<lparr>calls := calls s @ [AddLayer ''uesim'' uesim_pebble_layer True],
                        plan := plan s ++ services uesim_pebble_layer\<rparr>))"
proof -
  have a: "count_calls is_restart (snd (dispatch tmpl ev s)) = count_calls is_restart s"
    using assms
    by (cases ev)
      (simp_all add: count_calls_def configure_restarts install_remove_frame
        action_restarts)
  have b: "ev \<noteq> Start_ue_action \<longrightarrow> \<not> ue_running (snd (dispatch tmpl ev s))"
    using assms
    by (cases ev)
      (simp_all add: configure_ue_running install_remove_frame on_stop_when_unset)
  have c: "count_calls is_restart (snd (configure_uesim_workload r s)) = count_calls is_restart s"
    using assms by (simp add: count_calls_def workload_restarts)
  have d: "add_layer_fault s = None \<longrightarrow>
            configure_uesim_workload True s =
              (Inr (), s\<lparr>calls := calls s @ [AddLayer ''uesim'' uesim_pebble_layer True],
                        plan := plan s ++ services uesim_pebble_layer\<rparr>)"
    using assms by (simp add: workload_forced)
  show ?thesis
    using a b c d by blast
qed

theorem no_restart_while_flag_unset_witness:
  "\<not> ue_running example_state
   \<and> add_layer_fault example_state = None
   \<and> calls (snd (dispatch example_template Config_changed example_state)) =
       [Push ''/etc/ue.yaml'' ''supi: imsi-001010000000001'',
        AddLayer ''uesim'' uesim_pebble_layer True]
   \<and> count_calls is_restart (snd (dispatch example_template Config_changed example_state)) = 0
   \<and> \<not> ue_running (snd (dispatch example_template Config_changed example_state))
   \<and> configure_uesim_workload True example_state =
       (Inr (), example_state\<lparr>calls := [AddLayer ''uesim'' uesim_pebble_layer True],
                  plan := services uesim_pebble_layer\<rparr>)
   \<and> calls (snd (configure example_template
               (example_state\<lparr>ue_running := True\<rparr>))) =
       [Push ''/etc/ue.yaml'' ''supi: imsi-001010000000001'',
        AddLayer ''uesim'' uesim_pebble_layer True,
        Restart ''uesim'']"
proof -
  let ?t = "example_state\<lparr>ue_running := True\<rparr>"
  have u: "\<not> ue_running example_state"
    and af: "add_layer_fault example_state = None"
    and c0: "calls example_state = []"
    and p0: "plan example_state = Map.empty"
    by (simp_all add: example_state_def)
  note r = no_restart_while_flag_unset [OF u, of example_template Config_changed True]
  have k: "count_calls is_restart example_state = 0"
    by (simp add: count_calls_def c0)
  have w: "configure_uesim_workload True example_state =
       (Inr (), example_state\<lparr>calls := [AddLayer ''uesim'' uesim_pebble_layer True],
                  plan := services uesim_pebble_layer\<rparr>)"
    using r af by (simp add: c0 p0)
  have v: "get_invalid_configs ?t = []"
    using example_populated by (simp add: get_invalid_configs_def getters)
  have c: "can_connect ?t"
    by (simp add: can_connect_def example_state_def)
  have e: "exists_path ?t BASE_CONFIG_PATH"
    using example_storage by (simp add: exists_path_def)
  have rr: "rendered_config example_template ?t = Inr example_content"
    using example_rendered by (simp add: rendered_config_def getters)
  have m: "config_file_content_matches ?t example_content = Inr False"
    using example_no_file by (simp add: matches_absent)
  have t: "calls (snd (configure example_template ?t)) =
       [Push ''/etc/ue.yaml'' ''supi: imsi-001010000000001'',
        AddLayer ''uesim'' uesim_pebble_layer True,
        Restart ''uesim'']"
    unfolding configure_mismatch [OF v c e rr m]
    by (simp add: example_state_def example_content_def ue_config_file_path_def
        BASE_CONFIG_PATH_def UE_CONFIG_FILE_NAME_def uesim_service_name_def)
  show ?thesis
    using u af r k w t by (simp add: example_configure)
qed

end
